theory Spec2Isabelle
  imports Main "HOL-Library.List_Lexorder" "HOL-Library.Product_Lexorder" "HOL-Library.Multiset"
begin

section \<open>Python values loaded from a configuration file\<close>

text \<open>
  \<open>json.load\<close> and \<open>yaml.safe_load\<close> return a tree of Python objects. A Python
  \<open>str\<close> is a sequence of Unicode code points (here: a list of naturals); the text
  that \<open>json.dumps\<close> produces with \<open>ensure_ascii\<close> is ASCII and is a HOL
  \<open>string\<close>. A \<open>float\<close> is kept as the text \<open>float.__repr__\<close> gives for it
  (floating-point arithmetic itself is not modelled), with the three non-finite floats
  apart because the encoder tests for them. A \<open>dict\<close> is the list of its items in
  insertion order. \<open>PObject c\<close> stands for an object of any other class \<open>c\<close> that
  the YAML loader builds (\<open>datetime\<close>, \<open>date\<close>, \<open>bytes\<close>, \<open>set\<close>).
  Dictionary keys are \<open>str\<close>, \<open>int\<close>, \<open>bool\<close> or \<open>None\<close>; keys of other classes
  (floats, dates) are outside the model, and so are cyclic values (YAML aliases that
  refer to an enclosing node), which a tree cannot hold.
\<close>

type_synonym pystr = "nat list"

datatype pyfloat = FNaN | FInf | FNegInf | FFinite string

datatype pykey = KStr pystr | KInt int | KBool bool | KNone

datatype pyval =
    PNone
  | PBool bool
  | PInt int
  | PFloat pyfloat
  | PStr pystr
  | PList "pyval list"
  | PDict "(pykey \<times> pyval) list"
  | PObject string

text \<open>Exceptions are values: the class and the message.\<close>

datatype exn_class =
    TypeError | ValueError | JSONDecodeError | UnicodeDecodeError | YAMLError
  | ValidationError | SchemaError | OSError | FileNotFoundError | PermissionError
  | RuntimeError

datatype pyexn = Exn exn_class string

text \<open>
  \<open>issubclass\<close> on the exception classes above, as the \<open>except\<close> clauses of the
  program test it: \<open>JSONDecodeError\<close> and \<open>UnicodeDecodeError\<close> derive from
  \<open>ValueError\<close>, \<open>FileNotFoundError\<close> and \<open>PermissionError\<close> from \<open>OSError\<close>.
  Every class here derives from \<open>Exception\<close>.
\<close>

fun issubclass :: "exn_class \<Rightarrow> exn_class \<Rightarrow> bool" where
  "issubclass JSONDecodeError ValueError = True"
| "issubclass UnicodeDecodeError ValueError = True"
| "issubclass FileNotFoundError OSError = True"
| "issubclass PermissionError OSError = True"
| "issubclass c d = (c = d)"

fun isinstance :: "pyexn \<Rightarrow> exn_class \<Rightarrow> bool" where
  "isinstance (Exn c m) d = issubclass c d"

fun str_exn :: "pyexn \<Rightarrow> string" where
  "str_exn (Exn c m) = m"

section \<open>\<open>json.dumps(obj, indent=4, sort_keys=True)\<close>\<close>

abbreviation NL :: char where "NL \<equiv> CHR 0x0A"
abbreviation CR :: char where "CR \<equiv> CHR 0x0D"
abbreviation DQ :: char where "DQ \<equiv> CHR 0x22"
abbreviation BSL :: char where "BSL \<equiv> CHR 0x5C"

subsection \<open>Literals\<close>

text \<open>
  \<open>int.__repr__\<close>: decimal digits, a minus sign for a negative number. Since
  Python 3.11 the conversion of an \<open>int\<close> to decimal text is limited
  (\<open>sys.int_info.default_max_str_digits\<close> is 4300): for a number of more digits, the
  sign not counted, it raises \<open>ValueError\<close>.
\<close>

fun nat_repr :: "nat \<Rightarrow> string" where
  "nat_repr n =
     (if n < 10 then [''0123456789'' ! n]
      else nat_repr (n div 10) @ [''0123456789'' ! (n mod 10)])"

declare nat_repr.simps [simp del]

definition int_max_str_digits :: nat where
  "int_max_str_digits = 4300"

definition int_limit_error :: pyexn where
  "int_limit_error =
     Exn ValueError (''Exceeds the limit (4300 digits) for integer string conversion; '' @
                     ''use sys.set_int_max_str_digits() to increase the limit'')"

definition exceeds_limit :: "int \<Rightarrow> bool" where
  "exceeds_limit i = (int_max_str_digits < length (nat_repr (nat \<bar>i\<bar>)))"

definition intstr :: "int \<Rightarrow> pyexn + string" where
  "intstr i =
     (if exceeds_limit i then Inl int_limit_error
      else Inr (if i < 0 then CHR ''-'' # nat_repr (nat (- i)) else nat_repr (nat i)))"

text \<open>
  \<open>floatstr\<close> of \<open>JSONEncoder.iterencode\<close>, with \<open>allow_nan\<close> true (the default):
  the three special values have fixed texts, any other float its \<open>repr\<close>.
\<close>

fun floatstr :: "pyfloat \<Rightarrow> string" where
  "floatstr FNaN = ''NaN''"
| "floatstr FInf = ''Infinity''"
| "floatstr FNegInf = ''-Infinity''"
| "floatstr (FFinite r) = r"

text \<open>\<open>'{0:04x}'.format(n)\<close>: lower-case hexadecimal, padded with zeros to four digits.\<close>

fun hex_digits :: "nat \<Rightarrow> string" where
  "hex_digits n =
     (if n < 16 then [''0123456789abcdef'' ! n]
      else hex_digits (n div 16) @ [''0123456789abcdef'' ! (n mod 16)])"

declare hex_digits.simps [simp del]

definition format_04x :: "nat \<Rightarrow> string" where
  "format_04x n = replicate (4 - length (hex_digits n)) (CHR ''0'') @ hex_digits n"

text \<open>
  \<open>py_encode_basestring_ascii\<close>. The regular expression \<open>ESCAPE_ASCII\<close> matches a
  backslash, a double quote and every character outside \<open>' '..'~'\<close>; \<open>replace\<close>
  looks the match up in \<open>ESCAPE_DCT\<close> (the two-character escapes, and \<open>\u00XX\<close> for
  the other control characters) and otherwise writes \<open>\uXXXX\<close>, as a surrogate pair
  for a code point from \<open>0x10000\<close> on.
\<close>

definition ESCAPE_DCT :: "nat \<Rightarrow> string option" where
  "ESCAPE_DCT n =
     (if n = 0x5C then Some [BSL, BSL]
      else if n = 0x22 then Some [BSL, DQ]
      else if n = 0x08 then Some [BSL, CHR ''b'']
      else if n = 0x0C then Some [BSL, CHR ''f'']
      else if n = 0x0A then Some [BSL, CHR ''n'']
      else if n = 0x0D then Some [BSL, CHR ''r'']
      else if n = 0x09 then Some [BSL, CHR ''t'']
      else if n < 0x20 then Some ([BSL, CHR ''u''] @ format_04x n)
      else None)"

definition replace :: "nat \<Rightarrow> string" where
  "replace n =
     (case ESCAPE_DCT n of
        Some s \<Rightarrow> s
      | None \<Rightarrow>
          if n < 0x10000 then [BSL, CHR ''u''] @ format_04x n
          else
            (let m = n - 0x10000;
                 s1 = 0xD800 + (m div 1024) mod 1024;
                 s2 = 0xDC00 + m mod 1024
             in [BSL, CHR ''u''] @ format_04x s1 @ [BSL, CHR ''u''] @ format_04x s2))"

definition escape_ascii_matches :: "nat \<Rightarrow> bool" where
  "escape_ascii_matches n = (n = 0x5C \<or> n = 0x22 \<or> n < 0x20 \<or> 0x7E < n)"

definition py_encode_basestring_ascii :: "pystr \<Rightarrow> string" where
  "py_encode_basestring_ascii s =
     [DQ] @ concat (map (\<lambda>n. if escape_ascii_matches n then replace n else [char_of n]) s) @ [DQ]"

subsection \<open>Sorting the items of a dictionary\<close>

text \<open>
  \<open>sorted(dct.items())\<close> compares \<open>(key, value)\<close> tuples. The keys of a dictionary are
  pairwise different, so every comparison is decided by \<open>key1 < key2\<close>. Strings compare
  by code points, \<open>int\<close> and \<open>bool\<close> as numbers (\<open>True\<close> is 1), and \<open>'<'\<close> between
  a string and a number, or between \<open>None\<close> and anything, raises \<open>TypeError\<close>. A
  comparison sort of two or more items cannot finish without comparing across two
  classes when both occur, so the call raises exactly when the keys are not all strings
  or all numbers; a single item is never compared.
\<close>

fun is_str_key :: "pykey \<Rightarrow> bool" where
  "is_str_key (KStr s) = True"
| "is_str_key k = False"

fun is_num_key :: "pykey \<Rightarrow> bool" where
  "is_num_key (KInt i) = True"
| "is_num_key (KBool b) = True"
| "is_num_key k = False"

fun str_of_key :: "pykey \<Rightarrow> pystr" where
  "str_of_key (KStr s) = s"
| "str_of_key k = []"

fun num_of_key :: "pykey \<Rightarrow> int" where
  "num_of_key (KInt i) = i"
| "num_of_key (KBool b) = (if b then 1 else 0)"
| "num_of_key k = 0"

text \<open>
  The message of the \<open>TypeError\<close> names the classes of the two keys of the comparison
  that fails, the left operand first. \<open>list.sort\<close> sorts a list of fewer than 64 items
  as one run: \<open>count_run\<close> compares \<open>ks[j] < ks[j-1]\<close> for \<open>j = 1, 2, ...\<close> as long as
  the answers agree with the first one (a descending or a non-descending run), and
  \<open>binarysort\<close> inserts each further item into the sorted part before it, comparing it
  first with the item in the middle of that part. So the comparison that fails has on
  its left the first key \<open>ks[k]\<close> that cannot be compared with its predecessor, and on its
  right the predecessor when the run of \<open>count_run\<close> reaches \<open>k\<close>, otherwise the middle of
  the sorted keys before \<open>k\<close>. For a list of 64 items or more the runs are merged and the
  comparison that fails first is not followed here: the class of the exception is the
  same, the two class names of the message are those this rule gives.
\<close>

fun type_name :: "pykey \<Rightarrow> string" where
  "type_name (KStr s) = ''str''"
| "type_name (KInt i) = ''int''"
| "type_name (KBool b) = ''bool''"
| "type_name KNone = ''NoneType''"

definition comparable :: "pykey \<Rightarrow> pykey \<Rightarrow> bool" where
  "comparable k1 k2 = ((is_str_key k1 \<and> is_str_key k2) \<or> (is_num_key k1 \<and> is_num_key k2))"

definition key_lt :: "pykey \<Rightarrow> pykey \<Rightarrow> bool" where
  "key_lt k1 k2 =
     (if is_str_key k1 then str_of_key k1 < str_of_key k2 else num_of_key k1 < num_of_key k2)"

definition quoted :: "string \<Rightarrow> string" where
  "quoted s = [CHR 0x27] @ s @ [CHR 0x27]"

definition not_supported :: "pykey \<Rightarrow> pykey \<Rightarrow> pyexn" where
  "not_supported k1 k2 =
     Exn TypeError (quoted ''<'' @ '' not supported between instances of '' @
                    quoted (type_name k1) @ '' and '' @ quoted (type_name k2))"

definition first_unorderable :: "pykey list \<Rightarrow> nat" where
  "first_unorderable ks =
     (case filter (\<lambda>j. \<not> comparable (ks ! j) (ks ! (j - 1))) [1..<length ks] of
        [] \<Rightarrow> 0
      | k # rest \<Rightarrow> k)"

definition sort_TypeError :: "pykey list \<Rightarrow> pyexn" where
  "sort_TypeError ks =
     (let k = first_unorderable ks;
          descending = key_lt (ks ! 1) (ks ! 0);
          run_reaches_k = list_all (\<lambda>j. key_lt (ks ! j) (ks ! (j - 1)) = descending) [2..<k];
          sorted_part =
            (if is_str_key (ks ! 0) then sort_key str_of_key (take k ks)
             else sort_key num_of_key (take k ks))
      in if run_reaches_k then not_supported (ks ! k) (ks ! (k - 1))
         else not_supported (ks ! k) (sorted_part ! (k div 2)))"

definition sorted_items :: "(pykey \<times> pyval) list \<Rightarrow> pyexn + (pykey \<times> pyval) list" where
  "sorted_items items =
     (if length items \<le> 1 then Inr items
      else if list_all (\<lambda>kv. is_str_key (fst kv)) items
        then Inr (sort_key (\<lambda>kv. str_of_key (fst kv)) items)
      else if list_all (\<lambda>kv. is_num_key (fst kv)) items
        then Inr (sort_key (\<lambda>kv. num_of_key (fst kv)) items)
      else Inl (sort_TypeError (map fst items)))"

subsection \<open>The encoder\<close>

text \<open>
  A dictionary key is written as a JSON string: a \<open>str\<close> key as it is, \<open>True\<close>,
  \<open>False\<close> and \<open>None\<close> as \<open>true\<close>, \<open>false\<close> and \<open>null\<close>, an \<open>int\<close> key by
  \<open>int.__repr__\<close>, which raises for a key of more than 4300 digits.
\<close>

fun key_str :: "pykey \<Rightarrow> pyexn + pystr" where
  "key_str (KStr s) = Inr s"
| "key_str (KBool b) = Inr (map of_char (if b then ''true'' else ''false''))"
| "key_str KNone = Inr (map of_char ''null'')"
| "key_str (KInt i) =
     (case intstr i of Inl e \<Rightarrow> Inl e | Inr digits \<Rightarrow> Inr (map of_char digits))"

text \<open>
  \<open>newline_indent = '\n' + _indent * _current_indent_level\<close>, where \<open>_indent\<close> is
  \<open>' ' * 4\<close>.
\<close>

definition newline_indent :: "nat \<Rightarrow> string" where
  "newline_indent lvl = NL # concat (replicate lvl (replicate 4 (CHR '' '')))"

text \<open>
  The generators \<open>_iterencode\<close>, \<open>_iterencode_list\<close> and \<open>_iterencode_dict\<close> yield
  chunks that \<open>encode\<close> joins; the model returns the joined text, or the exception
  that ends the generator. The three generators dispatch on the class of a value in the
  same way, so one function \<open>iterencode\<close> encodes a value wherever it stands. The loops
  over the elements keep \<open>buf\<close>, \<open>separator\<close> and \<open>first\<close> of the source; they run
  over the encoded elements, in order, and stop at the first exception.
\<close>

fun iterencode_list_loop :: "(pyexn + string) list \<Rightarrow> string \<Rightarrow> string \<Rightarrow> pyexn + string" where
  "iterencode_list_loop [] buf separator = Inr []"
| "iterencode_list_loop (chunks # rest) buf separator =
     (case chunks of
        Inl e \<Rightarrow> Inl e
      | Inr text \<Rightarrow>
          (case iterencode_list_loop rest separator separator of
             Inl e \<Rightarrow> Inl e
           | Inr out \<Rightarrow> Inr (buf @ text @ out)))"

fun iterencode_dict_loop :: "(pykey \<times> (pyexn + string)) list \<Rightarrow> bool \<Rightarrow> string \<Rightarrow> pyexn + string" where
  "iterencode_dict_loop [] first item_separator = Inr []"
| "iterencode_dict_loop ((key, chunks) # rest) first item_separator =
     (case key_str key of
        Inl e \<Rightarrow> Inl e
      | Inr k \<Rightarrow>
          (case chunks of
             Inl e \<Rightarrow> Inl e
           | Inr text \<Rightarrow>
               (case iterencode_dict_loop rest False item_separator of
                  Inl e \<Rightarrow> Inl e
                | Inr out \<Rightarrow>
                    Inr ((if first then [] else item_separator)
                         @ py_encode_basestring_ascii k @ '': '' @ text @ out))))"

function (sequential) iterencode :: "pyval \<Rightarrow> nat \<Rightarrow> pyexn + string" where
  "iterencode PNone lvl = Inr ''null''"
| "iterencode (PBool b) lvl = Inr (if b then ''true'' else ''false'')"
| "iterencode (PInt i) lvl = intstr i"
| "iterencode (PFloat f) lvl = Inr (floatstr f)"
| "iterencode (PStr s) lvl = Inr (py_encode_basestring_ascii s)"
| "iterencode (PList lst) lvl =
     (if lst = [] then Inr ''[]''
      else
        (case iterencode_list_loop (map (\<lambda>v. iterencode v (lvl + 1)) lst)
                (''['' @ newline_indent (lvl + 1)) ('','' @ newline_indent (lvl + 1)) of
           Inl e \<Rightarrow> Inl e
         | Inr out \<Rightarrow> Inr (out @ newline_indent lvl @ '']'')))"
| "iterencode (PDict dct) lvl =
     (if dct = [] then Inr ''{}''
      else
        (case sorted_items dct of
           Inl e \<Rightarrow> Inl e
         | Inr items \<Rightarrow>
             (case iterencode_dict_loop (map (\<lambda>kv. (fst kv, iterencode (snd kv) (lvl + 1))) items)
                     True ('','' @ newline_indent (lvl + 1)) of
                Inl e \<Rightarrow> Inl e
              | Inr out \<Rightarrow>
                  Inr (''{'' @ newline_indent (lvl + 1) @ out @ newline_indent lvl @ ''}''))))"
| "iterencode (PObject c) lvl =
     Inl (Exn TypeError (''Object of type '' @ c @ '' is not JSON serializable''))"
  by pat_completeness auto

termination
proof (relation "measure (\<lambda>p. size (fst p))", goal_cases)
  case 1
  show ?case by simp
next
  case (2 lst lvl v)
  then have "size v \<le> size_list size lst"
    by (simp add: size_list_estimation')
  then show ?case by simp
next
  case (3 dct lvl items kv)
  then have "kv \<in> set dct"
    by (auto simp: sorted_items_def split: if_splits)
  moreover have "size (snd kv) < size_prod (\<lambda>x. 0) size kv"
    by (cases kv) simp
  ultimately have "size (snd kv) < size_list (size_prod (\<lambda>x. 0) size) dct"
    by (rule size_list_estimation)
  then show ?case by simp
qed

definition json_dumps :: "pyval \<Rightarrow> pyexn + string" where
  "json_dumps obj = iterencode obj 0"

section \<open>\<open>str.splitlines()\<close>\<close>

text \<open>
  A line ends at \<open>\n\<close>, \<open>\r\<close>, \<open>\r\n\<close>, \<open>\v\<close>, \<open>\f\<close>, \<open>\x1c\<close>, \<open>\x1d\<close>,
  \<open>\x1e\<close> or \<open>\x85\<close> (and at the code points 0x2028 and 0x2029, which a text of
  characters below 256 cannot hold). The line boundaries are dropped, and a text that ends with a
  boundary has no empty last line.
\<close>

definition is_linebreak :: "char \<Rightarrow> bool" where
  "is_linebreak c =
     (c = CHR 0x0A \<or> c = CHR 0x0B \<or> c = CHR 0x0C \<or> c = CHR 0x0D \<or>
      c = CHR 0x1C \<or> c = CHR 0x1D \<or> c = CHR 0x1E \<or> c = CHR 0x85)"

fun splitlines_from :: "string \<Rightarrow> string \<Rightarrow> string list" where
  "splitlines_from line [] = (if line = [] then [] else [line])"
| "splitlines_from line [c] = (if is_linebreak c then [line] else [line @ [c]])"
| "splitlines_from line (c # d # s) =
     (if c = CR \<and> d = NL then line # splitlines_from [] s
      else if is_linebreak c then line # splitlines_from [] (d # s)
      else splitlines_from (line @ [c]) (d # s))"

definition splitlines :: "string \<Rightarrow> string list" where
  "splitlines s = splitlines_from [] s"

section \<open>\<open>difflib.SequenceMatcher(None, a, b)\<close>\<close>

text \<open>
  \<open>__chain_b\<close>: \<open>b2j\<close> maps an element of \<open>b\<close> to the indices where it stands, in
  increasing order. No \<open>isjunk\<close> function is given, so \<open>bjunk\<close> is empty. With
  \<open>autojunk\<close> (the default) and at least 200 elements, an element that stands at more
  than \<open>n // 100 + 1\<close> places is popular and is deleted from \<open>b2j\<close>.
\<close>

definition chain_b :: "'a list \<Rightarrow> ('a \<rightharpoonup> nat list)" where
  "chain_b b =
     (let b2j = fold (\<lambda>(i, elt) b2j.
                   b2j(elt \<mapsto> (case b2j elt of None \<Rightarrow> [] | Some indices \<Rightarrow> indices) @ [i]))
                 (enumerate 0 b) Map.empty;
          n = length b
      in if n \<ge> 200
         then (let ntest = n div 100 + 1
               in (\<lambda>elt. case b2j elt of
                            None \<Rightarrow> None
                          | Some idxs \<Rightarrow> if length idxs > ntest then None else Some idxs))
         else b2j)"

text \<open>
  \<open>find_longest_match(alo, ahi, blo, bhi)\<close>. The inner loop runs over
  \<open>b2j.get(a[i], [])\<close> with its \<open>continue\<close> and \<open>break\<close>; \<open>j2len.get(j-1, 0)\<close> is 0
  for \<open>j = 0\<close>, where the key \<open>-1\<close> is never in the dictionary
  (\<open>j2lenget_pred\<close>). A match is the triple
  \<open>(besti, bestj, bestsize)\<close>.
\<close>

type_synonym match = "nat \<times> nat \<times> nat"

definition j2lenget_pred :: "(nat \<rightharpoonup> nat) \<Rightarrow> nat \<Rightarrow> nat" where
  "j2lenget_pred j2len j = (if j = 0 then 0 else case j2len (j - 1) of None \<Rightarrow> 0 | Some l \<Rightarrow> l)"

fun flm_inner ::
  "nat list \<Rightarrow> nat \<Rightarrow> nat \<Rightarrow> nat \<Rightarrow> (nat \<rightharpoonup> nat) \<Rightarrow> (nat \<rightharpoonup> nat) \<Rightarrow> match
     \<Rightarrow> (nat \<rightharpoonup> nat) \<times> match" where
  "flm_inner [] i blo bhi j2len newj2len best = (newj2len, best)"
| "flm_inner (j # js) i blo bhi j2len newj2len (besti, bestj, bestsize) =
     (if j < blo then flm_inner js i blo bhi j2len newj2len (besti, bestj, bestsize)
      else if j \<ge> bhi then (newj2len, (besti, bestj, bestsize))
      else
        (let k = j2lenget_pred j2len j + 1
         in flm_inner js i blo bhi j2len (newj2len(j \<mapsto> k))
              (if k > bestsize then (i + 1 - k, j + 1 - k, k) else (besti, bestj, bestsize))))"

fun flm_rows ::
  "'a list \<Rightarrow> ('a \<rightharpoonup> nat list) \<Rightarrow> nat list \<Rightarrow> nat \<Rightarrow> nat \<Rightarrow> (nat \<rightharpoonup> nat) \<Rightarrow> match \<Rightarrow> match" where
  "flm_rows a b2j [] blo bhi j2len best = best"
| "flm_rows a b2j (i # rows) blo bhi j2len best =
     (case flm_inner (case b2j (a ! i) of None \<Rightarrow> [] | Some js \<Rightarrow> js) i blo bhi j2len Map.empty best of
        (newj2len, best') \<Rightarrow> flm_rows a b2j rows blo bhi newj2len best')"

text \<open>
  The two \<open>while\<close> loops that extend the match to the left and to the right over equal
  elements. (The two further loops extend over junk elements only, and \<open>bjunk\<close> is
  empty.)
\<close>

function extend_left :: "'a list \<Rightarrow> 'a list \<Rightarrow> nat \<Rightarrow> nat \<Rightarrow> match \<Rightarrow> match" where
  "extend_left a b alo blo (besti, bestj, bestsize) =
     (if besti > alo \<and> bestj > blo \<and> a ! (besti - 1) = b ! (bestj - 1)
      then extend_left a b alo blo (besti - 1, bestj - 1, bestsize + 1)
      else (besti, bestj, bestsize))"
  by pat_completeness auto

termination
  by (relation "measure (\<lambda>(a, b, alo, blo, besti, bestj, bestsize). besti)") auto

function extend_right :: "'a list \<Rightarrow> 'a list \<Rightarrow> nat \<Rightarrow> nat \<Rightarrow> match \<Rightarrow> match" where
  "extend_right a b ahi bhi (besti, bestj, bestsize) =
     (if besti + bestsize < ahi \<and> bestj + bestsize < bhi
         \<and> a ! (besti + bestsize) = b ! (bestj + bestsize)
      then extend_right a b ahi bhi (besti, bestj, bestsize + 1)
      else (besti, bestj, bestsize))"
  by pat_completeness auto

termination
  by (relation "measure (\<lambda>(a, b, ahi, bhi, besti, bestj, bestsize). ahi - (besti + bestsize))") auto

declare extend_left.simps [simp del]
declare extend_right.simps [simp del]

definition find_longest_match ::
  "'a list \<Rightarrow> 'a list \<Rightarrow> ('a \<rightharpoonup> nat list) \<Rightarrow> nat \<Rightarrow> nat \<Rightarrow> nat \<Rightarrow> nat \<Rightarrow> match" where
  "find_longest_match a b b2j alo ahi blo bhi =
     extend_right a b ahi bhi
       (extend_left a b alo blo
          (flm_rows a b2j [alo..<ahi] blo bhi Map.empty (alo, blo, 0)))"

text \<open>
  The match that \<open>find_longest_match\<close> returns lies inside the rows it was asked to
  search; the loop of \<open>get_matching_blocks\<close> terminates because of this.
\<close>

lemma flm_inner_Cons:
  "blo \<le> j \<Longrightarrow> j < bhi \<Longrightarrow>
   flm_inner (j # js) i blo bhi j2len nj (bi, bj, bs) =
   flm_inner js i blo bhi j2len (nj(j \<mapsto> Suc (j2lenget_pred j2len j)))
     (if bs < Suc (j2lenget_pred j2len j)
      then (i - j2lenget_pred j2len j, j - j2lenget_pred j2len j, Suc (j2lenget_pred j2len j))
      else (bi, bj, bs))"
  by (simp add: Let_def)

lemma flm_inner_bounds:
  assumes "flm_inner js i blo bhi j2len newj2len (besti, bestj, bestsize) = (nj, bi, bj, bs)"
    and "alo \<le> besti" and "besti + bestsize \<le> i + 1" and "alo \<le> i"
    and "\<And>j l. j2len j = Some l \<Longrightarrow> l + alo \<le> i"
    and "\<And>j l. newj2len j = Some l \<Longrightarrow> l + alo \<le> i + 1"
  shows "alo \<le> bi \<and> bi + bs \<le> i + 1 \<and> (\<forall>j l. nj j = Some l \<longrightarrow> l + alo \<le> i + 1)"
  using assms
proof (induction js arbitrary: newj2len besti bestj bestsize)
  case Nil
  then show ?case by auto
next
  case (Cons j js)
  show ?case
  proof (cases "j < blo")
    case True
    with Cons.prems have "flm_inner js i blo bhi j2len newj2len (besti, bestj, bestsize) = (nj, bi, bj, bs)"
      by simp
    from Cons.IH[OF this Cons.prems(2-6)] show ?thesis by simp
  next
    case nlt: False
    show ?thesis
    proof (cases "j \<ge> bhi")
      case True
      with nlt Cons.prems show ?thesis by auto
    next
      case False
      define p where "p = j2lenget_pred j2len j"
      have kb: "p + alo \<le> i"
        using Cons.prems(4,5) by (auto simp: p_def j2lenget_pred_def split: option.splits)
      define best' where "best' = (if bestsize < Suc p then (i - p, j - p, Suc p) else (besti, bestj, bestsize))"
      obtain besti' bestj' bestsize' where b': "best' = (besti', bestj', bestsize')"
        by (cases best') auto
      have "flm_inner (j # js) i blo bhi j2len newj2len (besti, bestj, bestsize)
          = flm_inner js i blo bhi j2len (newj2len(j \<mapsto> Suc p)) best'"
        unfolding p_def best'_def using nlt False by (intro flm_inner_Cons) auto
      with Cons.prems(1) have rec:
        "flm_inner js i blo bhi j2len (newj2len(j \<mapsto> Suc p)) (besti', bestj', bestsize') = (nj, bi, bj, bs)"
        by (simp add: b')
      have 1: "alo \<le> besti'" and 2: "besti' + bestsize' \<le> i + 1"
        using b' kb Cons.prems(2,3) by (auto simp: best'_def split: if_splits)
      have 3: "\<And>j' l. (newj2len(j \<mapsto> Suc p)) j' = Some l \<Longrightarrow> l + alo \<le> i + 1"
        using kb Cons.prems(6) by (auto split: if_splits)
      from Cons.IH[OF rec 1 2 Cons.prems(4) Cons.prems(5) 3] show ?thesis by simp
    qed
  qed
qed

lemma flm_rows_bounds:
  assumes "flm_rows a b2j [i..<ahi] blo bhi j2len (besti, bestj, bestsize) = (bi, bj, bs)"
    and "alo \<le> besti" and "besti + bestsize \<le> i" and "alo \<le> i" and "i \<le> ahi"
    and "\<And>j l. j2len j = Some l \<Longrightarrow> l + alo \<le> i"
  shows "alo \<le> bi \<and> bi + bs \<le> ahi"
  using assms
proof (induction "ahi - i" arbitrary: i j2len besti bestj bestsize)
  case 0
  then show ?case by simp
next
  case (Suc n)
  then have lt: "i < ahi" by simp
  then have up: "[i..<ahi] = i # [Suc i..<ahi]" by (simp add: upt_conv_Cons)
  obtain nj bi' bj' bs' where inner:
    "flm_inner (case b2j (a ! i) of None \<Rightarrow> [] | Some js \<Rightarrow> js) i blo bhi j2len Map.empty (besti, bestj, bestsize) = (nj, bi', bj', bs')"
    by (metis prod_cases3)
  have rec: "flm_rows a b2j [Suc i..<ahi] blo bhi nj (bi', bj', bs') = (bi, bj, bs)"
    using Suc.prems(1) by (simp add: up inner)
  have "besti + bestsize \<le> i + 1" using Suc.prems(3) by simp
  from flm_inner_bounds[OF inner Suc.prems(2) this Suc.prems(4) Suc.prems(6)]
  have b: "alo \<le> bi'" "bi' + bs' \<le> i + 1" "\<And>j l. nj j = Some l \<Longrightarrow> l + alo \<le> Suc i"
    by auto
  have "n = ahi - Suc i" using Suc.hyps(2) by simp
  from Suc.hyps(1)[OF this rec b(1) _ _ _ b(3)] b(2) Suc.prems(4) lt show ?case by simp
qed

lemma extend_left_bounds:
  assumes "extend_left a b alo blo (besti, bestj, bestsize) = (bi, bj, bs)"
    and "alo \<le> besti"
  shows "alo \<le> bi \<and> bi + bs = besti + bestsize \<and> bestsize \<le> bs"
  using assms
proof (induction a b alo blo "(besti, bestj, bestsize)" arbitrary: besti bestj bestsize rule: extend_left.induct)
  case (1 a b alo blo besti bestj bestsize)
  show ?case
  proof (cases "besti > alo \<and> bestj > blo \<and> a ! (besti - 1) = b ! (bestj - 1)")
    case True
    then have "extend_left a b alo blo (besti, bestj, bestsize)
        = extend_left a b alo blo (besti - 1, bestj - 1, bestsize + 1)"
      by (subst extend_left.simps) simp
    with "1.prems" have "extend_left a b alo blo (besti - 1, bestj - 1, bestsize + 1) = (bi, bj, bs)"
      by simp
    moreover have "alo \<le> besti - 1" using True by arith
    ultimately have "alo \<le> bi \<and> bi + bs = besti - 1 + (bestsize + 1) \<and> bestsize + 1 \<le> bs"
      by (rule "1.hyps"[OF True])
    with True show ?thesis by auto
  next
    case False
    have "extend_left a b alo blo (besti, bestj, bestsize) = (besti, bestj, bestsize)"
      by (subst extend_left.simps) (rule if_not_P[OF False])
    with "1.prems" show ?thesis by simp
  qed
qed

lemma extend_right_bounds:
  assumes "extend_right a b ahi bhi (besti, bestj, bestsize) = (bi, bj, bs)"
  shows "bi = besti \<and> bestsize \<le> bs \<and> (bs = bestsize \<or> bi + bs \<le> ahi)"
  using assms
proof (induction a b ahi bhi "(besti, bestj, bestsize)" arbitrary: besti bestj bestsize rule: extend_right.induct)
  case (1 a b ahi bhi besti bestj bestsize)
  show ?case
  proof (cases "besti + bestsize < ahi \<and> bestj + bestsize < bhi \<and> a ! (besti + bestsize) = b ! (bestj + bestsize)")
    case True
    then have "extend_right a b ahi bhi (besti, bestj, bestsize)
        = extend_right a b ahi bhi (besti, bestj, bestsize + 1)"
      by (subst extend_right.simps) simp
    with "1.prems" have "extend_right a b ahi bhi (besti, bestj, bestsize + 1) = (bi, bj, bs)"
      by simp
    from "1.hyps"[OF True this] True show ?thesis by auto
  next
    case False
    have "extend_right a b ahi bhi (besti, bestj, bestsize) = (besti, bestj, bestsize)"
      by (subst extend_right.simps) (rule if_not_P[OF False])
    with "1.prems" show ?thesis by simp
  qed
qed

lemma find_longest_match_bounds:
  assumes "find_longest_match a b b2j alo ahi blo bhi = (i, j, k)" and "k \<noteq> 0"
  shows "alo \<le> i \<and> i + k \<le> ahi"
proof (cases "alo \<le> ahi")
  case True
  obtain i0 j0 k0 where r: "flm_rows a b2j [alo..<ahi] blo bhi Map.empty (alo, blo, 0) = (i0, j0, k0)"
    by (metis prod_cases3)
  obtain i1 j1 k1 where l: "extend_left a b alo blo (i0, j0, k0) = (i1, j1, k1)"
    by (metis prod_cases3)
  have e: "extend_right a b ahi bhi (i1, j1, k1) = (i, j, k)"
    using assms(1) by (simp add: find_longest_match_def r l)
  have b0: "alo \<le> i0 \<and> i0 + k0 \<le> ahi"
    by (rule flm_rows_bounds[OF r]) (use True in auto)
  from extend_left_bounds[OF l] b0 have b1: "alo \<le> i1 \<and> i1 + k1 \<le> ahi" by auto
  from extend_right_bounds[OF e] b1 show ?thesis by auto
next
  case False
  then have r: "flm_rows a b2j [alo..<ahi] blo bhi Map.empty (alo, blo, 0) = (alo, blo, 0)" by simp
  have l: "extend_left a b alo blo (alo, blo, 0) = (alo, blo, 0)"
    by (subst extend_left.simps) simp
  have "extend_right a b ahi bhi (alo, blo, 0) = (alo, blo, 0)"
    using False by (subst extend_right.simps) simp
  with assms show ?thesis by (simp add: find_longest_match_def r l)
qed

text \<open>
  \<open>get_matching_blocks\<close>: the work list \<open>queue\<close> is a stack (\<open>pop\<close> takes the
  element appended last; here the head of the list). The blocks found are sorted, runs of
  adjacent blocks are collapsed, and the sentinel \<open>(la, lb, 0)\<close> ends the list.
\<close>

function matching_loop ::
  "'a list \<Rightarrow> 'a list \<Rightarrow> ('a \<rightharpoonup> nat list) \<Rightarrow> (nat \<times> nat \<times> nat \<times> nat) list \<Rightarrow> match list
     \<Rightarrow> match list" where
  "matching_loop a b b2j [] matching_blocks = matching_blocks"
| "matching_loop a b b2j ((alo, ahi, blo, bhi) # queue) matching_blocks =
     (case find_longest_match a b b2j alo ahi blo bhi of
        (i, j, k) \<Rightarrow>
          if k \<noteq> 0 then
            matching_loop a b b2j
              ((if i + k < ahi \<and> j + k < bhi then [(i + k, ahi, j + k, bhi)] else [])
               @ (if alo < i \<and> blo < j then [(alo, i, blo, j)] else [])
               @ queue)
              (matching_blocks @ [(i, j, k)])
          else matching_loop a b b2j queue matching_blocks)"
  by pat_completeness auto

termination
proof (relation "measure (\<lambda>(a, b, b2j, queue, blocks).
          sum_list (map (\<lambda>(alo, ahi, blo, bhi). 2 * (ahi - alo) + 1) queue))", goal_cases)
  case 1
  show ?case by simp
next
  case (2 a b b2j alo ahi blo bhi queue matching_blocks i y j k)
  then have "find_longest_match a b b2j alo ahi blo bhi = (i, j, k)" by simp
  from find_longest_match_bounds[OF this \<open>k \<noteq> 0\<close>] \<open>k \<noteq> 0\<close> show ?case by auto
next
  case 3
  then show ?case by simp
qed

declare matching_loop.simps [simp del]

fun collapse :: "match list \<Rightarrow> match \<Rightarrow> match list" where
  "collapse [] (i1, j1, k1) = (if k1 \<noteq> 0 then [(i1, j1, k1)] else [])"
| "collapse ((i2, j2, k2) # rest) (i1, j1, k1) =
     (if i1 + k1 = i2 \<and> j1 + k1 = j2 then collapse rest (i1, j1, k1 + k2)
      else (if k1 \<noteq> 0 then [(i1, j1, k1)] else []) @ collapse rest (i2, j2, k2))"

definition get_matching_blocks :: "'a list \<Rightarrow> 'a list \<Rightarrow> match list" where
  "get_matching_blocks a b =
     (let la = length a; lb = length b;
          matching_blocks = matching_loop a b (chain_b b) [(0, la, 0, lb)] []
      in collapse (sort matching_blocks) (0, 0, 0) @ [(la, lb, 0)])"

text \<open>\<open>get_opcodes\<close>: how to turn \<open>a\<close> into \<open>b\<close>, from the matching blocks.\<close>

datatype tag = Replace | Delete | Insert | Equal

type_synonym opcode = "tag \<times> nat \<times> nat \<times> nat \<times> nat"

fun opcodes_loop :: "match list \<Rightarrow> nat \<Rightarrow> nat \<Rightarrow> opcode list" where
  "opcodes_loop [] i j = []"
| "opcodes_loop ((ai, bj, sz) # rest) i j =
     (if i < ai \<and> j < bj then [(Replace, i, ai, j, bj)]
      else if i < ai then [(Delete, i, ai, j, bj)]
      else if j < bj then [(Insert, i, ai, j, bj)]
      else [])
     @ (if sz \<noteq> 0 then [(Equal, ai, ai + sz, bj, bj + sz)] else [])
     @ opcodes_loop rest (ai + sz) (bj + sz)"

definition get_opcodes :: "'a list \<Rightarrow> 'a list \<Rightarrow> opcode list" where
  "get_opcodes a b = opcodes_loop (get_matching_blocks a b) 0 0"

text \<open>
  \<open>get_grouped_opcodes(n=3)\<close>: the first and the last opcode keep at most three lines
  of context, and a run of more than six equal lines ends a group. A group that is one
  \<open>equal\<close> opcode is not yielded. (\<open>max(i1, i2-n)\<close> on Python's integers is
  \<open>max i1 (i2 - n)\<close> on naturals, since \<open>i1\<close> is not negative.)
\<close>

fun fix_first :: "opcode \<Rightarrow> opcode" where
  "fix_first (tag, i1, i2, j1, j2) =
     (if tag = Equal then (tag, max i1 (i2 - 3), i2, max j1 (j2 - 3), j2)
      else (tag, i1, i2, j1, j2))"

fun fix_last :: "opcode \<Rightarrow> opcode" where
  "fix_last (tag, i1, i2, j1, j2) =
     (if tag = Equal then (tag, i1, min i2 (i1 + 3), j1, min j2 (j1 + 3))
      else (tag, i1, i2, j1, j2))"

fun group_loop :: "opcode list \<Rightarrow> opcode list \<Rightarrow> opcode list list" where
  "group_loop [] grp =
     (if grp \<noteq> [] \<and> \<not> (length grp = 1 \<and> fst (hd grp) = Equal) then [grp] else [])"
| "group_loop ((tag, i1, i2, j1, j2) # codes) grp =
     (if tag = Equal \<and> i2 - i1 > 6
      then (grp @ [(tag, i1, min i2 (i1 + 3), j1, min j2 (j1 + 3))])
           # group_loop codes [(tag, max i1 (i2 - 3), i2, max j1 (j2 - 3), j2)]
      else group_loop codes (grp @ [(tag, i1, i2, j1, j2)]))"

definition get_grouped_opcodes :: "'a list \<Rightarrow> 'a list \<Rightarrow> opcode list list" where
  "get_grouped_opcodes a b =
     (let codes = get_opcodes a b;
          codes = (if codes = [] then [(Equal, 0, 1, 0, 1)] else codes);
          codes = fix_first (hd codes) # tl codes;
          codes = butlast codes @ [fix_last (last codes)]
      in group_loop codes [])"

section \<open>\<open>difflib.unified_diff(a, b, fromfile, tofile)\<close>\<close>

text \<open>
  \<open>n\<close> is 3 and \<open>lineterm\<close> is \<open>'\n'\<close>, the defaults; no file dates are given. The
  two header lines come before the first group (\<open>started\<close>), and every group starts
  with its \<open>@@\<close> line. The three header lines end with \<open>lineterm\<close>; the other lines
  are the input lines behind their marker. \<open>a[i1:i2]\<close> is \<open>slice a i1 i2\<close>.
\<close>

definition slice :: "'a list \<Rightarrow> nat \<Rightarrow> nat \<Rightarrow> 'a list" where
  "slice xs i1 i2 = take (i2 - i1) (drop i1 xs)"

definition format_range_unified :: "nat \<Rightarrow> nat \<Rightarrow> string" where
  "format_range_unified start stop =
     (let beginning = start + 1;
          len = stop - start
      in if len = 1 then nat_repr beginning
         else nat_repr (if len = 0 then beginning - 1 else beginning) @ '','' @ nat_repr len)"

fun opcode_lines :: "string list \<Rightarrow> string list \<Rightarrow> opcode \<Rightarrow> string list" where
  "opcode_lines a b (tag, i1, i2, j1, j2) =
     (if tag = Equal then map (\<lambda>line. CHR '' '' # line) (slice a i1 i2)
      else
        (if tag = Replace \<or> tag = Delete then map (\<lambda>line. CHR ''-'' # line) (slice a i1 i2) else [])
        @ (if tag = Replace \<or> tag = Insert then map (\<lambda>line. CHR ''+'' # line) (slice b j1 j2) else []))"

fun unified_diff_loop ::
  "string list \<Rightarrow> string list \<Rightarrow> string \<Rightarrow> string \<Rightarrow> opcode list list \<Rightarrow> bool \<Rightarrow> string list" where
  "unified_diff_loop a b fromfile tofile [] started = []"
| "unified_diff_loop a b fromfile tofile (grp # groups) started =
     (if \<not> started then [''--- '' @ fromfile @ [NL], ''+++ '' @ tofile @ [NL]] else [])
     @ (case (hd grp, last grp) of
          ((tag1, i1, i2, j1, j2), (tag2, i3, i4, j3, j4)) \<Rightarrow>
            [''@@ -'' @ format_range_unified i1 i4 @ '' +'' @ format_range_unified j1 j4
               @ '' @@'' @ [NL]])
     @ concat (map (opcode_lines a b) grp)
     @ unified_diff_loop a b fromfile tofile groups True"

definition unified_diff :: "string list \<Rightarrow> string list \<Rightarrow> string \<Rightarrow> string \<Rightarrow> string list" where
  "unified_diff a b fromfile tofile =
     unified_diff_loop a b fromfile tofile (get_grouped_opcodes a b) False"

section \<open>The program\<close>

subsection \<open>\<open>diff_configs\<close>\<close>

definition diff_configs :: "pyval \<Rightarrow> pyval \<Rightarrow> pyexn + string list" where
  "diff_configs config1 config2 =
     (case json_dumps config1 of
        Inl e \<Rightarrow> Inl e
      | Inr text1 \<Rightarrow>
          (case json_dumps config2 of
             Inl e \<Rightarrow> Inl e
           | Inr text2 \<Rightarrow>
               Inr (unified_diff (splitlines text1) (splitlines text2) ''file1'' ''file2'')))"

subsection \<open>The world outside the program\<close>

text \<open>
  The file system and the libraries that parse and validate are parameters of the
  program: \<open>path_exists\<close> is \<open>os.path.exists\<close>; \<open>open_r\<close> is \<open>open(path, "r")\<close>
  followed by reading the file, and gives its text or the exception raised;
  \<open>lib_json_load\<close> and \<open>lib_yaml_safe_load\<close> parse a text into a value or raise;
  \<open>lib_validate instance schema\<close> is \<open>jsonschema.validate\<close>, which returns nothing
  or raises; \<open>open_w\<close> tells whether \<open>open(path, "w")\<close> raises, and \<open>write_raises\<close>
  whether the \<open>n\<close>-th \<open>f.write\<close> on that file does.
\<close>

record world =
  path_exists :: "string \<Rightarrow> bool"
  open_r :: "string \<Rightarrow> pyexn + string"
  lib_json_load :: "string \<Rightarrow> pyexn + pyval"
  lib_yaml_safe_load :: "string \<Rightarrow> pyexn + pyval"
  lib_validate :: "pyval \<Rightarrow> pyval \<Rightarrow> pyexn option"
  open_w :: "string \<Rightarrow> pyexn option"
  write_raises :: "string \<Rightarrow> nat \<Rightarrow> pyexn option"

datatype level = INFO | ERROR

type_synonym logrec = "level \<times> string"

subsection \<open>\<open>load_config\<close>\<close>

text \<open>
  The body of the \<open>try\<close> statement first, then its two handlers. \<open>None\<close> is
  \<open>PNone\<close>: the function returns it after logging, and it is also what the parsers
  return for the document \<open>null\<close>.
\<close>

definition load_config_try :: "world \<Rightarrow> string \<Rightarrow> string \<Rightarrow> (pyexn + pyval) \<times> logrec list" where
  "load_config_try w file_path config_type =
     (case open_r w file_path of
        Inl e \<Rightarrow> (Inl e, [])
      | Inr f \<Rightarrow>
          if config_type = ''json'' then
            (case lib_json_load w f of
               Inr v \<Rightarrow> (Inr v, [])
             | Inl e \<Rightarrow>
                 if isinstance e JSONDecodeError
                 then (Inl (Exn ValueError (''Invalid JSON file: '' @ str_exn e)), [])
                 else (Inl e, []))
          else if config_type = ''yaml'' then
            (case lib_yaml_safe_load w f of
               Inr v \<Rightarrow> (Inr v, [])
             | Inl e \<Rightarrow>
                 if isinstance e YAMLError
                 then (Inl (Exn ValueError (''Invalid YAML file: '' @ str_exn e)), [])
                 else (Inl e, []))
          else if config_type = ''ini'' then
            (Inl (Exn ValueError ''INI format is not yet supported.''), [])
          else
            (Inr PNone, [(ERROR, ''Unsupported configuration type: '' @ config_type)]))"

definition load_config :: "world \<Rightarrow> string \<Rightarrow> string \<Rightarrow> (pyexn + pyval) \<times> logrec list" where
  "load_config w file_path config_type =
     (case load_config_try w file_path config_type of
        (Inr v, lg) \<Rightarrow> (Inr v, lg)
      | (Inl e, lg) \<Rightarrow>
          if isinstance e FileNotFoundError
          then (Inl (Exn FileNotFoundError (''File not found: '' @ file_path)), lg)
          else (Inr PNone, lg @ [(ERROR, ''Error loading config file: '' @ str_exn e)]))"

subsection \<open>\<open>validate_config\<close>\<close>

text \<open>
  The result is the \<open>bool\<close> the function returns, and the records it logs. The
  handlers are tried in the order of the source.
\<close>

definition validate_config_try :: "world \<Rightarrow> pyval \<Rightarrow> string \<Rightarrow> pyexn option" where
  "validate_config_try w config_data schema_path =
     (case open_r w schema_path of
        Inl e \<Rightarrow> Some e
      | Inr f \<Rightarrow>
          (case lib_json_load w f of
             Inl e \<Rightarrow> Some e
           | Inr schema \<Rightarrow> lib_validate w config_data schema))"

definition validate_config :: "world \<Rightarrow> pyval \<Rightarrow> string option \<Rightarrow> bool \<times> logrec list" where
  "validate_config w config_data schema_path =
     (case schema_path of
        None \<Rightarrow> (True, [])
      | Some path \<Rightarrow>
          if path = [] then (True, [])
          else
            (case validate_config_try w config_data path of
               None \<Rightarrow> (True, [(INFO, ''Configuration file is valid against the schema.'')])
             | Some e \<Rightarrow>
                 if isinstance e FileNotFoundError
                 then (False, [(ERROR, ''Schema file not found: '' @ path)])
                 else if isinstance e ValidationError
                 then (False, [(ERROR, ''Configuration validation failed: '' @ str_exn e)])
                 else if isinstance e JSONDecodeError
                 then (False, [(ERROR, ''Invalid JSON schema file: '' @ str_exn e)])
                 else (False, [(ERROR, ''Error validating configuration: '' @ str_exn e)])))"

subsection \<open>\<open>write_diff\<close>\<close>

text \<open>
  \<open>open(output_file, "w")\<close> creates or truncates the file; every line is written with
  \<open>"\n"\<close> appended. The result is the text that reached the file (\<open>None\<close> when
  the file could not be opened) and the records logged.
\<close>

fun write_lines :: "world \<Rightarrow> string \<Rightarrow> string list \<Rightarrow> nat \<Rightarrow> string \<Rightarrow> pyexn option \<times> string" where
  "write_lines w output_file [] n written = (None, written)"
| "write_lines w output_file (line # rest) n written =
     (case write_raises w output_file n of
        Some e \<Rightarrow> (Some e, written)
      | None \<Rightarrow> write_lines w output_file rest (n + 1) (written @ line @ [NL]))"

definition write_diff :: "world \<Rightarrow> string list \<Rightarrow> string \<Rightarrow> string option \<times> logrec list" where
  "write_diff w diff output_file =
     (case open_w w output_file of
        Some e \<Rightarrow> (None, [(ERROR, ''Error writing diff to file: '' @ str_exn e)])
      | None \<Rightarrow>
          (case write_lines w output_file diff 0 [] of
             (Some e, written) \<Rightarrow>
               (Some written, [(ERROR, ''Error writing diff to file: '' @ str_exn e)])
           | (None, written) \<Rightarrow>
               (Some written, [(INFO, ''Diff written to: '' @ output_file)])))"

subsection \<open>\<open>main\<close>\<close>

text \<open>
  The parsed command line, and what a run leaves behind: how the process ends
  (\<open>sys.exit(n)\<close>, the end of \<open>main\<close> with exit code 0, or an exception nobody
  catches), the log, the text printed on standard output and the text written to the
  output file.
\<close>

record args =
  file1 :: string
  file2 :: string
  config_type :: string
  output_path :: "string option"
  schema :: "string option"

datatype outcome = Exit nat | Uncaught pyexn

record run =
  outcome :: outcome
  log :: "logrec list"
  stdout :: string
  output_file :: "string option"

definition finish :: "outcome \<Rightarrow> logrec list \<Rightarrow> run" where
  "finish oc lg = \<lparr>outcome = oc, log = lg, stdout = [], output_file = None\<rparr>"

text \<open>The handlers of the \<open>try\<close> statement around the two calls of \<open>load_config\<close>.\<close>

definition load_raised :: "pyexn \<Rightarrow> logrec list \<Rightarrow> run" where
  "load_raised e lg =
     (if isinstance e ValueError then finish (Exit 1) (lg @ [(ERROR, str_exn e)])
      else if isinstance e FileNotFoundError then finish (Exit 1) (lg @ [(ERROR, str_exn e)])
      else finish (Uncaught e) lg)"

text \<open>\<open>for line in diff: print(line)\<close>.\<close>

definition print_lines :: "string list \<Rightarrow> string" where
  "print_lines diff = concat (map (\<lambda>line. line @ [NL]) diff)"

text \<open>The end of \<open>main\<close>, from the call of \<open>diff_configs\<close> on.\<close>

definition compare_and_report :: "world \<Rightarrow> args \<Rightarrow> pyval \<Rightarrow> pyval \<Rightarrow> logrec list \<Rightarrow> run" where
  "compare_and_report w a config1 config2 lg =
     (case diff_configs config1 config2 of
        Inl e \<Rightarrow> finish (Uncaught e) lg
      | Inr diff \<Rightarrow>
          if diff \<noteq> [] then
            (case output_path a of
               Some path \<Rightarrow>
                 if path \<noteq> [] then
                   (case write_diff w diff path of
                      (written, lg') \<Rightarrow>
                        \<lparr>outcome = Exit 0,
                         log = lg @ lg' @ [(INFO, ''Configuration comparison completed.'')],
                         stdout = [], output_file = written\<rparr>)
                 else
                   \<lparr>outcome = Exit 0,
                    log = lg @ [(INFO, ''Configuration comparison completed.'')],
                    stdout = print_lines diff, output_file = None\<rparr>
             | None \<Rightarrow>
                 \<lparr>outcome = Exit 0,
                  log = lg @ [(INFO, ''Configuration comparison completed.'')],
                  stdout = print_lines diff, output_file = None\<rparr>)
          else
            finish (Exit 0)
              (lg @ [(INFO, ''Configurations are identical.''),
                     (INFO, ''Configuration comparison completed.'')]))"

text \<open>
  \<open>if args.schema:\<close> and the two calls of \<open>validate_config\<close>; the second call is
  made only when the first returned \<open>True\<close>.
\<close>

definition validate_both :: "world \<Rightarrow> args \<Rightarrow> pyval \<Rightarrow> pyval \<Rightarrow> bool \<times> logrec list" where
  "validate_both w a config1 config2 =
     (case schema a of
        None \<Rightarrow> (True, [])
      | Some path \<Rightarrow>
          if path = [] then (True, [])
          else
            (case validate_config w config1 (Some path) of
               (False, lg1) \<Rightarrow> (False, lg1)
             | (True, lg1) \<Rightarrow>
                 (case validate_config w config2 (Some path) of
                    (ok, lg2) \<Rightarrow> (ok, lg1 @ lg2))))"

definition main :: "world \<Rightarrow> args \<Rightarrow> run" where
  "main w a =
     (if \<not> path_exists w (file1 a)
      then finish (Exit 1) [(ERROR, ''File not found: '' @ file1 a)]
      else if \<not> path_exists w (file2 a)
      then finish (Exit 1) [(ERROR, ''File not found: '' @ file2 a)]
      else
        (case load_config w (file1 a) (config_type a) of
           (Inl e, lg1) \<Rightarrow> load_raised e lg1
         | (Inr config1, lg1) \<Rightarrow>
             (case load_config w (file2 a) (config_type a) of
                (Inl e, lg2) \<Rightarrow> load_raised e (lg1 @ lg2)
              | (Inr config2, lg2) \<Rightarrow>
                  if config1 = PNone \<or> config2 = PNone then finish (Exit 1) (lg1 @ lg2)
                  else
                    (case validate_both w a config1 config2 of
                       (False, lg3) \<Rightarrow> finish (Exit 1) (lg1 @ lg2 @ lg3)
                     | (True, lg3) \<Rightarrow>
                         compare_and_report w a config1 config2 (lg1 @ lg2 @ lg3)))))"

subsection \<open>A small world for concrete runs\<close>

text \<open>
  \<open>example_world files parsed\<close>: the files are those listed, with their texts; a text
  parses (as JSON and as YAML) to the value listed for it, and any other text is
  malformed; every value is valid against every schema, and writing never fails.
\<close>

definition example_world :: "(string \<times> string) list \<Rightarrow> (string \<times> pyval) list \<Rightarrow> world" where
  "example_world files parsed =
     \<lparr>path_exists = (\<lambda>p. map_of files p \<noteq> None),
      open_r = (\<lambda>p. case map_of files p of
                        None \<Rightarrow> Inl (Exn FileNotFoundError ''No such file or directory'')
                      | Some f \<Rightarrow> Inr f),
      lib_json_load = (\<lambda>f. case map_of parsed f of
                        None \<Rightarrow> Inl (Exn JSONDecodeError ''Expecting value'')
                      | Some v \<Rightarrow> Inr v),
      lib_yaml_safe_load = (\<lambda>f. case map_of parsed f of
                        None \<Rightarrow> Inl (Exn YAMLError ''could not parse'')
                      | Some v \<Rightarrow> Inr v),
      lib_validate = (\<lambda>i s. None),
      open_w = (\<lambda>p. None),
      write_raises = (\<lambda>p n. None)\<rparr>"

section \<open>Concrete inputs\<close>

definition demo_files :: "(string \<times> string) list" where
  "demo_files =
     [(''a.yaml'', ''1''), (''b.yaml'', ''2''), (''null.yaml'', ''null''),
      (''date.yaml'', ''2001-12-14''), (''schema.json'', ''{}''), (''broken.json'', ''{'')]"

definition demo_parsed :: "(string \<times> pyval) list" where
  "demo_parsed =
     [(''1'', PInt 1), (''2'', PInt 2), (''null'', PNone),
      (''2001-12-14'', PObject ''date''), (''{}'', PDict [])]"

definition demo_world :: world where
  "demo_world = example_world demo_files demo_parsed"

definition demo_args :: args where
  "demo_args =
     \<lparr>file1 = ''a.yaml'', file2 = ''b.yaml'', config_type = ''yaml'',
      output_path = None, schema = None\<rparr>"







section \<open>Loading, validating and reporting\<close>








lemma sort_TypeError_class: "\<exists>m. sort_TypeError ks = Exn TypeError m"
  by (simp add: sort_TypeError_def not_supported_def Let_def)

lemma load_config_yaml:
  "open_r w p = Inr f \<Longrightarrow> lib_yaml_safe_load w f = Inr c \<Longrightarrow>
   load_config w p ''yaml'' = (Inr c, [])"
  by (simp add: load_config_def load_config_try_def)

lemma outcome_compare_and_report:
  "outcome (compare_and_report w a c1 c2 lg) =
     (case diff_configs c1 c2 of Inl e \<Rightarrow> Uncaught e | Inr d \<Rightarrow> Exit 0)"
  by (simp add: compare_and_report_def finish_def split: sum.splits option.splits prod.splits)

lemma load_config_write_fields:
  "load_config (w\<lparr>open_w := ow, write_raises := wr\<rparr>) p t = load_config w p t"
  by (simp add: load_config_def load_config_try_def cong: sum.case_cong if_cong)

lemma validate_config_write_fields:
  "validate_config (w\<lparr>open_w := ow, write_raises := wr\<rparr>) c p = validate_config w c p"
proof -
  have "validate_config_try (w\<lparr>open_w := ow, write_raises := wr\<rparr>) c q
      = validate_config_try w c q" for q
    by (simp add: validate_config_try_def cong: sum.case_cong)
  then show ?thesis
    by (simp add: validate_config_def cong: option.case_cong if_cong)
qed

lemma validate_both_write_fields:
  "validate_both (w\<lparr>open_w := ow, write_raises := wr\<rparr>) a c1 c2 = validate_both w a c1 c2"
  unfolding validate_both_def validate_config_write_fields by (rule refl)

lemma outcome_main_write_fields:
  "outcome (main (w\<lparr>open_w := ow, write_raises := wr\<rparr>) a) = outcome (main w a)"
  by (simp add: main_def load_config_write_fields validate_both_write_fields
      outcome_compare_and_report finish_def load_raised_def
      split: prod.splits sum.splits bool.splits)

text \<open>
  C10. Some values that \<open>yaml.safe_load\<close> returns make \<open>json.dumps\<close> raise: an object
  of a class the encoder does not know (a date or timestamp scalar), and a mapping with
  an \<open>int\<close> key beside a \<open>str\<close> key, whose items cannot be sorted. \<open>diff_configs\<close>
  then raises \<open>TypeError\<close>, nothing in \<open>main\<close> catches it, and the process ends with
  this exception instead of one of the error exits.
\<close>

theorem yaml_value_makes_diff_configs_raise:
  assumes "path_exists w (file1 a)" and "path_exists w (file2 a)"
    and "config_type a = ''yaml''" and "schema a = None"
    and "open_r w (file1 a) = Inr f1" and "lib_yaml_safe_load w f1 = Inr c1"
    and "open_r w (file2 a) = Inr f2" and "lib_yaml_safe_load w f2 = Inr c2"
    and "c2 \<noteq> PNone"
    and "c1 = PObject cls \<or> c1 = PDict [(KInt n, v1), (KStr s, v2)]"
  shows "\<exists>m. diff_configs c1 c2 = Inl (Exn TypeError m)
             \<and> outcome (main w a) = Uncaught (Exn TypeError m)"
proof -
  have "\<exists>m. json_dumps c1 = Inl (Exn TypeError m)"
  proof (rule disjE [OF assms(10)])
    assume "c1 = PObject cls"
    then show ?thesis by (simp add: json_dumps_def)
  next
    assume c: "c1 = PDict [(KInt n, v1), (KStr s, v2)]"
    obtain m where "sort_TypeError [KInt n, KStr s] = Exn TypeError m"
      using sort_TypeError_class by blast
    then show ?thesis
      unfolding c by (simp add: json_dumps_def sorted_items_def)
  qed
  then obtain m where raised: "json_dumps c1 = Inl (Exn TypeError m)" ..
  then have d: "diff_configs c1 c2 = Inl (Exn TypeError m)"
    by (simp add: diff_configs_def)
  from assms(10) have "c1 \<noteq> PNone" by auto
  then have "main w a = compare_and_report w a c1 c2 []"
    using assms(1-9)
    by (simp add: main_def load_config_yaml validate_both_def)
  with d show ?thesis
    by (auto simp: outcome_compare_and_report)
qed

theorem yaml_value_makes_diff_configs_raise_witness:
  "\<exists>m. diff_configs (PObject ''date'') (PInt 2) = Inl (Exn TypeError m)
       \<and> outcome (main demo_world (demo_args\<lparr>file1 := ''date.yaml''\<rparr>))
           = Uncaught (Exn TypeError m)"
  using yaml_value_makes_diff_configs_raise
    [of demo_world "demo_args\<lparr>file1 := ''date.yaml''\<rparr>" "''2001-12-14''" "PObject ''date''"
        "''2''" "PInt 2" "''date''"]
  by (simp add: demo_world_def demo_args_def demo_files_def demo_parsed_def example_world_def)


text \<open>
  C6. \<open>unified_diff\<close> is called with its default \<open>lineterm\<close>, so the three header
  lines of the diff end with a newline of their own, while the other lines (from
  \<open>splitlines\<close>) do not. \<open>write_diff\<close> appends \<open>"\n"\<close> to every line and
  \<open>print\<close> does the same, so each header line comes out as two output lines, the
  second one empty: the diff of the documents \<open>1\<close> and \<open>2\<close> has 5 lines, and both the
  output file and standard output receive 8.
\<close>

theorem header_lines_are_followed_by_an_empty_line:
  "diff_configs (PInt 1) (PInt 2)
     = Inr [''--- file1'' @ [NL], ''+++ file2'' @ [NL], ''@@ -1 +1 @@'' @ [NL], ''-1'', ''+2'']
   \<and> output_file (main demo_world (demo_args\<lparr>output_path := Some ''out.diff''\<rparr>))
     = Some (''--- file1'' @ [NL, NL] @ ''+++ file2'' @ [NL, NL] @ ''@@ -1 +1 @@'' @ [NL, NL]
             @ ''-1'' @ [NL] @ ''+2'' @ [NL])
   \<and> stdout (main demo_world demo_args)
     = ''--- file1'' @ [NL, NL] @ ''+++ file2'' @ [NL, NL] @ ''@@ -1 +1 @@'' @ [NL, NL]
       @ ''-1'' @ [NL] @ ''+2'' @ [NL]
   \<and> length (splitlines (stdout (main demo_world demo_args))) = 8"
  by code_simp

text \<open>
  C7. For a file that can be opened, \<open>load_config\<close> with the type \<open>ini\<close> raises
  \<open>ValueError\<close> inside its own \<open>try\<close> statement, whose handler for \<open>Exception\<close>
  catches it: the function logs the message and returns \<open>None\<close>. No error reaches
  the caller.
\<close>

theorem load_config_ini_returns_None:
  assumes "open_r w file_path = Inr f"
  shows "load_config w file_path ''ini''
           = (Inr PNone, [(ERROR, ''Error loading config file: INI format is not yet supported.'')])"
  using assms by (simp add: load_config_def load_config_try_def)

theorem load_config_ini_returns_None_witness:
  "load_config demo_world ''a.yaml'' ''ini''
     = (Inr PNone, [(ERROR, ''Error loading config file: INI format is not yet supported.'')])"
  using load_config_ini_returns_None [of demo_world "''a.yaml''" "''1''"]
  by (simp add: demo_world_def demo_files_def example_world_def)

text \<open>
  C8. When there are differences and an output file is given but cannot be opened, or a
  write to it fails, \<open>write_diff\<close> logs the error and returns; \<open>main\<close> goes on to its
  last log record and the process ends with exit code 0. More generally, how \<open>main\<close>
  ends does not depend on whether writing fails.
\<close>

theorem write_error_is_logged_and_not_fatal:
  assumes "diff_configs c1 c2 = Inr d" and "d \<noteq> []"
    and "output_path a = Some p" and "p \<noteq> []"
    and "open_w w p = Some e \<or> (open_w w p = None \<and> fst (write_lines w p d 0 []) = Some e)"
  shows "outcome (compare_and_report w a c1 c2 lg) = Exit 0
       \<and> log (compare_and_report w a c1 c2 lg)
           = lg @ [(ERROR, ''Error writing diff to file: '' @ str_exn e),
                   (INFO, ''Configuration comparison completed.'')]
       \<and> outcome (main (w'\<lparr>open_w := ow, write_raises := wr\<rparr>) a') = outcome (main w' a')"
proof -
  from assms(5) have "snd (write_diff w d p) = [(ERROR, ''Error writing diff to file: '' @ str_exn e)]"
    by (auto simp: write_diff_def split: prod.splits option.splits)
  with assms(1-4) show ?thesis
    by (auto simp: compare_and_report_def outcome_main_write_fields split: prod.splits)
qed

theorem write_error_is_logged_and_not_fatal_witness:
  "outcome (main (demo_world\<lparr>open_w := (\<lambda>p. Some (Exn PermissionError ''Permission denied''))\<rparr>)
              (demo_args\<lparr>output_path := Some ''out.diff''\<rparr>)) = Exit 0
   \<and> log (compare_and_report
             (demo_world\<lparr>open_w := (\<lambda>p. Some (Exn PermissionError ''Permission denied''))\<rparr>)
             (demo_args\<lparr>output_path := Some ''out.diff''\<rparr>) (PInt 1) (PInt 2) [])
       = [(ERROR, ''Error writing diff to file: Permission denied''),
          (INFO, ''Configuration comparison completed.'')]"
proof -
  have d: "diff_configs (PInt 1) (PInt 2)
      = Inr [''--- file1'' @ [NL], ''+++ file2'' @ [NL], ''@@ -1 +1 @@'' @ [NL], ''-1'', ''+2'']"
    by code_simp
  have m: "outcome (main demo_world (demo_args\<lparr>output_path := Some ''out.diff''\<rparr>)) = Exit 0"
    by code_simp
  show ?thesis
    using write_error_is_logged_and_not_fatal
      [where a = "demo_args\<lparr>output_path := Some ''out.diff''\<rparr>" and p = "''out.diff''"
         and w = "demo_world\<lparr>open_w := (\<lambda>p. Some (Exn PermissionError ''Permission denied''))\<rparr>"
         and e = "Exn PermissionError ''Permission denied''" and lg = "[]" and w' = demo_world
         and ow = "\<lambda>p. Some (Exn PermissionError ''Permission denied'')"
         and wr = "write_raises demo_world"
         and a' = "demo_args\<lparr>output_path := Some ''out.diff''\<rparr>", OF d]
      m
    by (simp add: demo_args_def)
qed

text \<open>
  C9. \<open>validate_config\<close> returns a \<open>bool\<close>. A missing schema file, a schema file
  that is not JSON and a document that violates the schema all make it return
  \<open>False\<close>; what tells them apart is only the text of the record it logs.
\<close>

theorem validate_config_failures_return_False:
  assumes "schema_path \<noteq> []"
  shows "(open_r w schema_path = Inl (Exn FileNotFoundError m) \<longrightarrow>
            validate_config w config_data (Some schema_path)
              = (False, [(ERROR, ''Schema file not found: '' @ schema_path)]))
       \<and> (open_r w schema_path = Inr f \<and> lib_json_load w f = Inl (Exn JSONDecodeError m) \<longrightarrow>
            validate_config w config_data (Some schema_path)
              = (False, [(ERROR, ''Invalid JSON schema file: '' @ m)]))
       \<and> (open_r w schema_path = Inr f \<and> lib_json_load w f = Inr s
            \<and> lib_validate w config_data s = Some (Exn ValidationError m) \<longrightarrow>
            validate_config w config_data (Some schema_path)
              = (False, [(ERROR, ''Configuration validation failed: '' @ m)]))"
  using assms by (simp add: validate_config_def validate_config_try_def)

theorem validate_config_failures_return_False_witness:
  "validate_config demo_world (PInt 1) (Some ''missing.json'')
     = (False, [(ERROR, ''Schema file not found: missing.json'')])
   \<and> validate_config demo_world (PInt 1) (Some ''broken.json'')
     = (False, [(ERROR, ''Invalid JSON schema file: Expecting value'')])
   \<and> validate_config
       (demo_world\<lparr>lib_validate := (\<lambda>i s. Some (Exn ValidationError ''1 is not of type object''))\<rparr>)
       (PInt 1) (Some ''schema.json'')
     = (False, [(ERROR, ''Configuration validation failed: 1 is not of type object'')])"
  using
    validate_config_failures_return_False
      [where schema_path = "''missing.json''" and w = demo_world
         and m = "''No such file or directory''" and config_data = "PInt 1"]
    validate_config_failures_return_False
      [where schema_path = "''broken.json''" and w = demo_world and f = "''{''"
         and m = "''Expecting value''" and config_data = "PInt 1"]
    validate_config_failures_return_False
      [where schema_path = "''schema.json''" and f = "''{}''" and s = "PDict []"
         and w = "demo_world\<lparr>lib_validate := (\<lambda>i s. Some (Exn ValidationError ''1 is not of type object''))\<rparr>"
         and m = "''1 is not of type object''" and config_data = "PInt 1"]
  by (simp add: demo_world_def demo_files_def demo_parsed_def example_world_def)

theorem validate_config_result_is_collapsed:
  "fst (validate_config demo_world (PInt 1) (Some ''missing.json''))
     = fst (validate_config demo_world (PInt 1) (Some ''broken.json''))
   \<and> fst (validate_config demo_world (PInt 1) (Some ''broken.json''))
     = fst (validate_config
              (demo_world\<lparr>lib_validate := (\<lambda>i s. Some (Exn ValidationError ''1 is not of type object''))\<rparr>)
              (PInt 1) (Some ''schema.json''))"
  by code_simp




section \<open>Documents and key order\<close>

text \<open>
  A Document of the specification: \<open>null\<close>, a boolean, a number, a string, a sequence
  of Documents, or a mapping from strings to Documents with unique keys.
\<close>

function (sequential) is_document :: "pyval \<Rightarrow> bool" where
  "is_document (PList xs) = list_all is_document xs"
| "is_document (PDict kvs) =
     (list_all (\<lambda>kv. is_str_key (fst kv) \<and> is_document (snd kv)) kvs \<and> distinct (map fst kvs))"
| "is_document (PObject c) = False"
| "is_document v = True"
  by pat_completeness auto

termination
proof (relation "measure size", goal_cases)
  case 1
  show ?case by simp
next
  case (2 xs x)
  then have "size x \<le> size_list size xs"
    by (simp add: size_list_estimation')
  then show ?case by simp
next
  case (3 kvs kv)
  moreover have "size (snd kv) < size_prod (\<lambda>x. 0) size kv"
    by (cases kv) simp
  ultimately have "size (snd kv) < size_list (size_prod (\<lambda>x. 0) size) kvs"
    by (metis size_list_estimation)
  then show ?case by simp
qed

text \<open>
  \<open>same_but_key_order a b\<close>: the two values differ at most in the order in which the
  keys of their mappings were inserted, at every level. Sequences have the same length
  and corresponding elements; mappings have the same number of items, and every key of
  the first is a key of the second with a corresponding value.
\<close>

function (sequential) same_but_key_order :: "pyval \<Rightarrow> pyval \<Rightarrow> bool" where
  "same_but_key_order (PList xs) (PList ys) =
     (length xs = length ys \<and> list_all (\<lambda>xy. same_but_key_order (fst xy) (snd xy)) (zip xs ys))"
| "same_but_key_order (PDict kvs) (PDict kvs') =
     (length kvs = length kvs' \<and>
      list_all (\<lambda>kv. case map_of kvs' (fst kv) of
                        None \<Rightarrow> False
                      | Some v' \<Rightarrow> same_but_key_order (snd kv) v') kvs)"
| "same_but_key_order v v' = (v = v')"
  by pat_completeness auto

termination
proof (relation "measure (\<lambda>p. size (fst p))", goal_cases)
  case 1
  show ?case by simp
next
  case (2 xs ys xy)
  then have "xy \<in> set (zip xs ys)" by simp
  then have "fst xy \<in> set xs"
    by (metis prod.collapse set_zip_leftD)
  then have "size (fst xy) \<le> size_list size xs"
    by (simp add: size_list_estimation')
  then show ?case by simp
next
  case (3 kvs kvs' kv v')
  have "size (snd kv) < size_prod (\<lambda>x. 0) size kv"
    by (cases kv) simp
  with 3(1) have "size (snd kv) < size_list (size_prod (\<lambda>x. 0) size) kvs"
    by (metis size_list_estimation)
  then show ?case by simp
qed


section \<open>The canonical text does not depend on key order\<close>



















lemma same_but_key_order_refl:
  "is_document d \<Longrightarrow> same_but_key_order d d"
proof (induction d rule: is_document.induct)
  case (1 xs)
  have "same_but_key_order (fst xy) (snd xy)" if "xy \<in> set (zip xs xs)" for xy
  proof -
    obtain x y where xy: "xy = (x, y)" by (cases xy)
    with that have "(x, y) \<in> set (zip xs xs)" by simp
    then have "x \<in> set xs" "y = x"
      by (auto simp: zip_same)
    with 1 xy show ?thesis by (simp add: list_all_iff)
  qed
  then show ?case by (simp add: list_all_iff)
next
  case (2 kvs)
  have "case map_of kvs (fst kv) of None \<Rightarrow> False | Some v' \<Rightarrow> same_but_key_order (snd kv) v'"
    if "kv \<in> set kvs" for kv
  proof -
    from "2.prems" have "distinct (map fst kvs)" by simp
    with that have "map_of kvs (fst kv) = Some (snd kv)" by simp
    moreover have "same_but_key_order (snd kv) (snd kv)"
      using "2.IH"[OF that] "2.prems" that by (simp add: list_all_iff)
    ultimately show ?thesis by simp
  qed
  then show ?case by (simp add: list_all_iff)
qed simp_all







section \<open>Equal sequences have an empty diff\<close>

text \<open>
  \<open>positions b e\<close> are the indices of \<open>e\<close> in \<open>b\<close>, in increasing order: what
  \<open>b2j\<close> holds for an element that is not popular.
\<close>

definition positions :: "'a list \<Rightarrow> 'a \<Rightarrow> nat list" where
  "positions b e = filter (\<lambda>j. b ! j = e) [0..<length b]"

lemma positions_snoc:
  "positions (xs @ [x]) e = positions xs e @ (if x = e then [length xs] else [])"
proof -
  have "filter (\<lambda>j. (xs @ [x]) ! j = e) [0..<length xs] = filter (\<lambda>j. xs ! j = e) [0..<length xs]"
    by (rule filter_cong) (simp_all add: nth_append)
  then show ?thesis
    by (simp add: positions_def)
qed

lemma fold_b2j:
  "fold (\<lambda>(i, elt) b2j. b2j(elt \<mapsto> (case b2j elt of None \<Rightarrow> [] | Some indices \<Rightarrow> indices) @ [i]))
     (enumerate 0 b) Map.empty
   = (\<lambda>e. if positions b e = [] then None else Some (positions b e))"
proof -
  define step where "step = (\<lambda>(i :: nat, elt :: 'a) (b2j :: 'a \<rightharpoonup> nat list).
      b2j(elt \<mapsto> (case b2j elt of None \<Rightarrow> [] | Some indices \<Rightarrow> indices) @ [i]))"
  have "fold step (enumerate 0 b) Map.empty
      = (\<lambda>e. if positions b e = [] then None else Some (positions b e))"
  proof (induction b rule: rev_induct)
    case Nil
    show ?case by (simp add: positions_def)
  next
    case (snoc x xs)
    have "fold step (enumerate 0 (xs @ [x])) Map.empty
        = step (length xs, x) (fold step (enumerate 0 xs) Map.empty)"
      by (simp add: enumerate_append_eq)
    also have "\<dots> = step (length xs, x)
        (\<lambda>e. if positions xs e = [] then None else Some (positions xs e))"
      by (simp only: snoc.IH)
    also have "\<dots> = (\<lambda>e. if positions (xs @ [x]) e = [] then None
        else Some (positions (xs @ [x]) e))"
      by (auto simp: step_def positions_snoc fun_eq_iff)
    finally show ?case .
  qed
  then show ?thesis
    unfolding step_def .
qed


lemma chain_b_None_iff:
  "chain_b b e = None \<longleftrightarrow>
     positions b e = [] \<or> (length b \<ge> 200 \<and> length (positions b e) > length b div 100 + 1)"
  unfolding chain_b_def fold_b2j
  by (auto simp: Let_def split: if_splits)































end
